theory Spec2Isabelle
  imports Main "HOL-Library.Word"
begin

section \<open>Strings and the regular expressions of the source\<close>

text \<open>
  JavaScript strings are modelled as \<open>string\<close> (lists of 8-bit characters). The four
  regular expressions of \<open>normalizeLidToJid\<close> carry the flag \<open>i\<close> and no flag \<open>u\<close>, so letter
  case is folded for ASCII letters only; \<open>\d\<close> is the class \<open>[0-9]\<close>, \<open>[^:@]\<close> is every
  character but the two separators, and \<open>^\<close> and \<open>$\<close> anchor at the two ends of the string
  (no flag \<open>m\<close>).
\<close>

definition lower :: "char \<Rightarrow> char" where
  "lower c =
     (case map_of (zip ''ABCDEFGHIJKLMNOPQRSTUVWXYZ'' ''abcdefghijklmnopqrstuvwxyz'') c of
        Some l \<Rightarrow> l
      | None \<Rightarrow> c)"

definition is_digit :: "char \<Rightarrow> bool" where
  "is_digit c = (c \<in> set ''0123456789'')"

definition notsep :: "char \<Rightarrow> bool" where
  "notsep c = (c \<noteq> CHR '':'' \<and> c \<noteq> CHR ''@'')"

text \<open>\<open>ci_eq s pat\<close>: the whole of \<open>s\<close> matches the lower-case literal \<open>pat\<close> under flag \<open>i\<close>.\<close>

definition ci_eq :: "string \<Rightarrow> string \<Rightarrow> bool" where
  "ci_eq s pat = (map lower s = pat)"

text \<open>\<open>/pat$/i.test(s)\<close> for a lower-case literal \<open>pat\<close>: \<open>s\<close> ends with \<open>pat\<close> in any letter case.\<close>

definition ends_ci :: "string \<Rightarrow> string \<Rightarrow> bool" where
  "ends_ci pat s = (length pat \<le> length s \<and> ci_eq (drop (length s - length pat) s) pat)"

text \<open>
  \<open>s.replace(/pat$/i, repl)\<close> for a literal \<open>pat\<close> and a replacement without \<open>$\<close>: the only
  place where the pattern can match is the end of \<open>s\<close>; without a match \<open>s\<close> is returned.
\<close>

definition replace_suffix_ci :: "string \<Rightarrow> string \<Rightarrow> string \<Rightarrow> string" where
  "replace_suffix_ci pat repl s =
     (if ends_ci pat s then take (length s - length pat) s @ repl else s)"

text \<open>
  The match of \<open>/^([^:@]+)(:\d+)?@lid$/i\<close> against the whole string, with its two groups.
  Group 1 is greedy and what follows it starts with \<open>:\<close> or \<open>@\<close>, so group 1 is the longest
  prefix free of both; in the same way the digits of group 2 are all the digits after the
  colon. \<open>None\<close> is "no match"; the second component is \<open>None\<close> when group 2 did not take part.
\<close>

definition match_lid :: "string \<Rightarrow> (string \<times> string option) option" where
  "match_lid s =
     (let g1 = takeWhile notsep s; r = dropWhile notsep s in
      if g1 = [] then None
      else if ci_eq r ''@lid'' then Some (g1, None)
      else (case r of
              [] \<Rightarrow> None
            | c # r' \<Rightarrow>
                if c = CHR '':'' then
                  (let ds = takeWhile is_digit r'; t = dropWhile is_digit r' in
                   if ds \<noteq> [] \<and> ci_eq t ''@lid'' then Some (g1, Some (CHR '':'' # ds))
                   else None)
                else None))"

text \<open>\<open>/@lid$/i.test(id)\<close>\<close>

definition test_lid :: "string \<Rightarrow> bool" where
  "test_lid s = ends_ci ''@lid'' s"

text \<open>\<open>id.replace(/^([^:@]+)(:\d+)?@lid$/i, "$1@lid")\<close>: the match is the whole string.\<close>

definition lid_bare :: "string \<Rightarrow> string" where
  "lid_bare s = (case match_lid s of Some (g1, _) \<Rightarrow> g1 @ ''@lid'' | None \<Rightarrow> s)"

text \<open>
  \<open>match = id.match(/^([^:@]+)(:\d+)@lid$/i); device = match ? match[2] : ""\<close>: the same
  expression with group 2 mandatory.
\<close>

definition lid_device :: "string \<Rightarrow> string" where
  "lid_device s = (case match_lid s of Some (_, Some g2) \<Rightarrow> g2 | _ \<Rightarrow> [])"

section \<open>Asynchronous operations over a store: state and errors\<close>

text \<open>
  An \<open>async\<close> function is a state transformer that returns either the value of its promise
  (\<open>Inr\<close>) or the error it rejects with (\<open>Inl\<close>). The only error the sources raise themselves
  is the \<open>TypeError\<close> of destructuring the undefined result of \<open>jidDecode(jid)!\<close>, the
  \<open>MalformedAddress\<close> of the specification; all others come from collaborators.
\<close>

datatype js_error = MalformedAddress | External string

type_synonym ('s, 'a) io = "'s \<Rightarrow> (js_error + 'a) \<times> 's"

definition io_return :: "'a \<Rightarrow> ('s, 'a) io" where
  "io_return v = (\<lambda>s. (Inr v, s))"

definition io_throw :: "js_error \<Rightarrow> ('s, 'a) io" where
  "io_throw e = (\<lambda>s. (Inl e, s))"

definition io_bind :: "('s, 'a) io \<Rightarrow> ('a \<Rightarrow> ('s, 'b) io) \<Rightarrow> ('s, 'b) io" where
  "io_bind m f = (\<lambda>s. case m s of (Inl e, s') \<Rightarrow> (Inl e, s') | (Inr v, s') \<Rightarrow> f v s')"

text \<open>\<open>try { m } catch { h }\<close>\<close>

definition io_catch :: "('s, 'a) io \<Rightarrow> (js_error \<Rightarrow> ('s, 'a) io) \<Rightarrow> ('s, 'a) io" where
  "io_catch m h = (\<lambda>s. case m s of (Inl e, s') \<Rightarrow> h e s' | (Inr v, s') \<Rightarrow> (Inr v, s'))"

section \<open>Types/Auth.ts\<close>

type_synonym bytes = "8 word list"

text \<open>
  What a store hands out under an id. The declared value types are byte arrays and,
  for \<open>lid-mapping\<close>, strings; the sources test the values at run time (\<open>typeof\<close>,
  truthiness), so the three shapes are kept apart.
\<close>

datatype js_value = JNull | JStr string | JBin bytes

fun truthy :: "js_value \<Rightarrow> bool" where
  "truthy JNull = False"
| "truthy (JStr s) = (s \<noteq> [])"
| "truthy (JBin b) = True"

text \<open>The keys of \<open>SignalDataTypeMap\<close>.\<close>

datatype kind = PreKey | Session | SenderKey | SenderKeyMemory | AppStateSyncKey
  | AppStateSyncVersion | LidMapping

text \<open>\<open>SignalDataSet\<close>: per kind, ids with a value or with \<open>null\<close> (\<open>None\<close>).\<close>

type_synonym SignalDataSet = "(kind \<times> (string \<times> js_value option) list) list"

text \<open>\<open>KeyPair\<close>, with \<open>public\<close> and \<open>private\<close> renamed.\<close>

record KeyPair =
  publicKey :: bytes
  privateKey :: bytes

record SignedKeyPair =
  keyPair :: KeyPair
  signature :: bytes
  keyId :: nat
  timestampS :: "nat option"

record ProtocolAddress =
  name :: string
  deviceId :: nat

record SignalCreds =
  signedIdentityKey :: KeyPair
  signedPreKey :: SignedKeyPair
  registrationId :: nat

text \<open>
  \<open>SignalKeyStore\<close> is an interface; its implementations are collaborators. \<open>keys_get\<close> and
  \<open>keys_set\<close> are its \<open>get\<close> and \<open>set\<close>, operations on a state of any type \<open>'s\<close>
  that may reject.
\<close>

record 's SignalKeyStore =
  keys_get :: "kind \<Rightarrow> string list \<Rightarrow> ('s, string \<rightharpoonup> js_value) io"
  keys_set :: "SignalDataSet \<Rightarrow> ('s, unit) io"

section \<open>Signal/libsignal.ts: the identity normalizer\<close>

text \<open>
  The body of the \<open>try\<close> block either returns from the function (\<open>Some\<close>) or falls through
  (\<open>None\<close>); the \<open>catch\<close> block is empty and falls through as well. The parameter
  \<open>id\<close> of the source is \<open>ident\<close> here, as \<open>group\<close> is \<open>grp\<close> further down.
\<close>

definition normalizeLidToJid :: "string \<Rightarrow> 's SignalKeyStore \<Rightarrow> ('s, string) io" where
  "normalizeLidToJid ident keys =
     (if \<not> test_lid ident then io_return ident
      else
        let bare = lid_bare ident in
        io_bind
          (io_catch
             (io_bind (keys_get keys LidMapping [bare]) (\<lambda>res.
                case res bare of
                  Some (JStr mapped) \<Rightarrow>
                    if mapped \<noteq> [] then
                      (let device = lid_device ident in
                       io_return (Some (replace_suffix_ci ''@s.whatsapp.net''
                                          (device @ ''@s.whatsapp.net'') mapped)))
                    else io_return None
                | _ \<Rightarrow> io_return None))
             (\<lambda>e. io_return None))
          (\<lambda>returned. case returned of Some r \<Rightarrow> io_return r | None \<Rightarrow> io_return ident))"

section \<open>Signal/libsignal.ts: addresses\<close>

record FullJid =
  user :: string
  device :: "nat option"

definition digit_value :: "char \<Rightarrow> nat" where
  "digit_value c =
     (case map_of (zip ''0123456789'' [0, 1, 2, 3, 4, 5, 6, 7, 8, 9]) c of
        Some v \<Rightarrow> v
      | None \<Rightarrow> 0)"

definition nat_of_digits :: "string \<Rightarrow> nat" where
  "nat_of_digits ds = foldl (\<lambda>n c. 10 * n + digit_value c) 0 ds"

text \<open>
  Modelled from the spec: \<open>jidDecode\<close> of \<open>WABinary\<close>, which the sources import and do not
  contain. Section 4.3 has an address split into a principal and a device index, the device
  index absent when the address has none, and the decoding fail when the principal segment
  is empty; the layout \<open>principal[:device]@server\<close> is the one the regular expressions of
  \<open>normalizeLidToJid\<close> read. \<open>None\<close> is the \<open>undefined\<close> that the \<open>!\<close> of the caller
  asserts away.
\<close>

definition jidDecode :: "string \<Rightarrow> FullJid option" where
  "jidDecode jid =
     (if CHR ''@'' \<notin> set jid then None
      else
        let userCombined = takeWhile (\<lambda>c. c \<noteq> CHR ''@'') jid;
            principal = takeWhile (\<lambda>c. c \<noteq> CHR '':'') userCombined;
            dev = drop (Suc (length principal)) userCombined
        in if principal = [] then None
           else Some \<lparr>user = principal,
                      device = (if dev \<noteq> [] \<and> list_all is_digit dev
                                then Some (nat_of_digits dev) else None)\<rparr>)"

text \<open>
  \<open>new libsignal.ProtocolAddress(id, deviceId)\<close>: the constructor of the library keeps its
  two arguments and refuses an id that contains a dot, the separator of the string form
  of an address.
\<close>

definition ProtocolAddress_new :: "string \<Rightarrow> nat \<Rightarrow> js_error + ProtocolAddress" where
  "ProtocolAddress_new ident dev =
     (if CHR ''.'' \<in> set ident then Inl (External ''encoded addr detected'')
      else Inr \<lparr>name = ident, deviceId = dev\<rparr>)"

text \<open>
  \<open>const { user, device } = jidDecode(jid)!\<close> throws when the decoder returned \<open>undefined\<close>;
  \<open>device || 0\<close> is 0 for an absent device.
\<close>

definition jidToSignalProtocolAddress :: "string \<Rightarrow> js_error + ProtocolAddress" where
  "jidToSignalProtocolAddress jid =
     (case jidDecode jid of
        None \<Rightarrow> Inl MalformedAddress
      | Some d \<Rightarrow>
          ProtocolAddress_new (user d) (case device d of Some n \<Rightarrow> n | None \<Rightarrow> 0))"

fun nat_to_string :: "nat \<Rightarrow> string" where
  "nat_to_string n =
     (if n < 10 then [''0123456789'' ! n]
      else nat_to_string (n div 10) @ [''0123456789'' ! (n mod 10)])"

declare nat_to_string.simps [simp del]

text \<open>
  Modelled from the spec: \<open>SenderKeyName\<close> of \<open>WASignalGroup\<close>, which the sources import and
  do not contain. Section 4.3 has the sender-key name be a composite key that combines the
  group id and the resolved address of the member and depends on nothing else; the group
  id, the principal and the device index are joined with \<open>::\<close>.
\<close>

definition SenderKeyName_toString :: "string \<Rightarrow> ProtocolAddress \<Rightarrow> string" where
  "SenderKeyName_toString groupId sender =
     groupId @ ''::'' @ name sender @ ''::'' @ nat_to_string (deviceId sender)"

definition jidToSignalSenderKeyName :: "string \<Rightarrow> string \<Rightarrow> js_error + string" where
  "jidToSignalSenderKeyName grp usr =
     (case jidToSignalProtocolAddress usr of
        Inl e \<Rightarrow> Inl e
      | Inr addr \<Rightarrow> Inr (SenderKeyName_toString grp addr))"

section \<open>Signal/libsignal.ts: the storage handed to the ciphers\<close>

text \<open>
  The object that \<open>signalStorage\<close> returns. Session and sender-key records cross this
  interface in their serialized form: \<open>serialize\<close>, \<open>deserialize\<close> and
  \<open>new SenderKeyRecord(key)\<close> belong to the cipher libraries and are not looked into. The
  pre-key and credential accessors read no address and are left out.
\<close>

record 's SignalStorage =
  loadSession :: "string \<Rightarrow> ('s, js_value option) io"
  storeSession :: "string \<Rightarrow> js_value \<Rightarrow> ('s, unit) io"
  isTrustedIdentity :: "string \<Rightarrow> bytes \<Rightarrow> bool"
  loadSenderKey :: "string \<Rightarrow> ('s, js_value option) io"
  storeSenderKey :: "string \<Rightarrow> js_value \<Rightarrow> ('s, unit) io"

record 's SignalAuthState =
  creds :: SignalCreds
  keys :: "'s SignalKeyStore"

text \<open>
  \<open>const { [norm]: sess } = await keys.get("session", [norm]); if (sess) return ...\<close>: an
  absent or falsy entry gives \<open>undefined\<close> (\<open>None\<close>). \<open>isTrustedIdentity\<close> declares no
  parameter; the two arguments the library calls it with are ignored.
\<close>

definition signalStorage :: "'s SignalAuthState \<Rightarrow> 's SignalStorage" where
  "signalStorage auth =
     \<lparr>loadSession = (\<lambda>ident.
        io_bind (normalizeLidToJid ident (keys auth)) (\<lambda>norm.
        io_bind (keys_get (keys auth) Session [norm]) (\<lambda>res.
          case res norm of
            Some sess \<Rightarrow> if truthy sess then io_return (Some sess) else io_return None
          | None \<Rightarrow> io_return None))),
      storeSession = (\<lambda>ident session.
        io_bind (normalizeLidToJid ident (keys auth)) (\<lambda>norm.
          keys_set (keys auth) [(Session, [(norm, Some session)])])),
      isTrustedIdentity = (\<lambda>identifier identityKey. True),
      loadSenderKey = (\<lambda>keyId.
        io_bind (normalizeLidToJid keyId (keys auth)) (\<lambda>norm.
        io_bind (keys_get (keys auth) SenderKey [norm]) (\<lambda>res.
          case res norm of
            Some key \<Rightarrow> if truthy key then io_return (Some key) else io_return None
          | None \<Rightarrow> io_return None))),
      storeSenderKey = (\<lambda>keyId key.
        io_bind (normalizeLidToJid keyId (keys auth)) (\<lambda>norm.
          keys_set (keys auth) [(SenderKey, [(norm, Some key)])]))\<rparr>"

section \<open>Signal/libsignal.ts: the repository\<close>

text \<open>
  The cipher classes of \<open>libsignal\<close> and \<open>WASignalGroup\<close> are collaborators: each method the
  repository calls is a parameter that receives what the constructor of its object
  received (the storage, and the address or the sender-key name); the constructors keep
  their arguments and do nothing else, but for \<open>SenderKeyDistributionMessage_new\<close>, the
  constructor that reads a distribution message from its bytes and may refuse them.
  \<open>ProtocolAddress_toString\<close> is the \<open>toString\<close> of the address class and
  \<open>SenderKeyRecord_new\<close> the serialized form of \<open>new SenderKeyRecord()\<close>.
\<close>

record 's modules =
  ProtocolAddress_toString :: "ProtocolAddress \<Rightarrow> string"
  decryptPreKeyWhisperMessage :: "'s SignalStorage \<Rightarrow> ProtocolAddress \<Rightarrow> bytes \<Rightarrow> ('s, bytes) io"
  decryptWhisperMessage :: "'s SignalStorage \<Rightarrow> ProtocolAddress \<Rightarrow> bytes \<Rightarrow> ('s, bytes) io"
  SessionCipher_encrypt :: "'s SignalStorage \<Rightarrow> ProtocolAddress \<Rightarrow> bytes \<Rightarrow> ('s, nat \<times> string) io"
  initOutgoing :: "'s SignalStorage \<Rightarrow> ProtocolAddress \<Rightarrow> js_value \<Rightarrow> ('s, unit) io"
  GroupCipher_decrypt :: "'s SignalStorage \<Rightarrow> string \<Rightarrow> bytes \<Rightarrow> ('s, bytes) io"
  GroupCipher_encrypt :: "'s SignalStorage \<Rightarrow> string \<Rightarrow> bytes \<Rightarrow> ('s, bytes) io"
  GroupSessionBuilder_process :: "'s SignalStorage \<Rightarrow> string \<Rightarrow> bytes \<Rightarrow> ('s, unit) io"
  GroupSessionBuilder_create :: "'s SignalStorage \<Rightarrow> string \<Rightarrow> ('s, bytes) io"
  SenderKeyDistributionMessage_new :: "bytes \<Rightarrow> js_error + bytes"
  SenderKeyDistributionMessage_serialize :: "bytes \<Rightarrow> bytes"
  SenderKeyRecord_new :: js_value

text \<open>Lifts the synchronous, throwing address functions into an \<open>async\<close> body.\<close>

definition io_of :: "js_error + 'a \<Rightarrow> ('s, 'a) io" where
  "io_of r = (case r of Inl e \<Rightarrow> io_throw e | Inr v \<Rightarrow> io_return v)"

definition decryptGroupMessage ::
  "'s modules \<Rightarrow> 's SignalAuthState \<Rightarrow> string \<Rightarrow> string \<Rightarrow> bytes \<Rightarrow> ('s, bytes) io" where
  "decryptGroupMessage imp auth grp authorJid msg =
     io_bind (io_of (jidToSignalSenderKeyName grp authorJid)) (\<lambda>senderName.
       GroupCipher_decrypt imp (signalStorage auth) senderName msg)"

text \<open>
  In this operation and in \<open>encryptGroupMessage\<close>,
  \<open>const { [senderName]: senderKey } = await auth.keys.get("sender-key", [senderName])\<close>
  leaves \<open>senderKey\<close> undefined when the result has no entry, and \<open>!senderKey\<close> holds for
  an undefined or falsy value. The distribution message is built from the bytes of
  \<open>item.axolotlSenderKeyDistributionMessage\<close> after the sender-key name and before the
  store is asked.
\<close>

definition processSenderKeyDistributionMessage ::
  "'s modules \<Rightarrow> 's SignalAuthState \<Rightarrow> string \<Rightarrow> bytes \<Rightarrow> string \<Rightarrow> ('s, unit) io" where
  "processSenderKeyDistributionMessage imp auth groupId axolotl authorJid =
     io_bind (io_of (jidToSignalSenderKeyName groupId authorJid)) (\<lambda>senderName.
     io_bind (io_of (SenderKeyDistributionMessage_new imp axolotl)) (\<lambda>senderMsg.
     io_bind (keys_get (keys auth) SenderKey [senderName]) (\<lambda>res.
     io_bind (if \<not> (case res senderName of Some senderKey \<Rightarrow> truthy senderKey | None \<Rightarrow> False)
              then storeSenderKey (signalStorage auth) senderName (SenderKeyRecord_new imp)
              else io_return ()) (\<lambda>_.
       GroupSessionBuilder_process imp (signalStorage auth) senderName senderMsg))))"

text \<open>
  The \<open>switch\<close> has the two cases and no default; \<open>result\<close> stays \<open>undefined\<close> (\<open>None\<close>) when
  neither applies.
\<close>

definition decryptMessage ::
  "'s modules \<Rightarrow> 's SignalAuthState \<Rightarrow> string \<Rightarrow> string \<Rightarrow> bytes \<Rightarrow> ('s, bytes option) io" where
  "decryptMessage imp auth jid type ciphertext =
     io_bind (io_of (jidToSignalProtocolAddress jid)) (\<lambda>addr.
       if type = ''pkmsg'' then
         io_bind (decryptPreKeyWhisperMessage imp (signalStorage auth) addr ciphertext)
           (\<lambda>result. io_return (Some result))
       else if type = ''msg'' then
         io_bind (decryptWhisperMessage imp (signalStorage auth) addr ciphertext)
           (\<lambda>result. io_return (Some result))
       else io_return None)"

text \<open>\<open>Buffer.from(body, "binary")\<close>: one byte per character.\<close>

definition Buffer_from_binary :: "string \<Rightarrow> bytes" where
  "Buffer_from_binary body = map of_char body"

definition encryptMessage ::
  "'s modules \<Rightarrow> 's SignalAuthState \<Rightarrow> string \<Rightarrow> bytes \<Rightarrow> ('s, string \<times> bytes) io" where
  "encryptMessage imp auth jid data =
     io_bind (io_of (jidToSignalProtocolAddress jid)) (\<lambda>addr.
     io_bind (SessionCipher_encrypt imp (signalStorage auth) addr data) (\<lambda>(sigType, body).
       io_return (if sigType = 3 then ''pkmsg'' else ''msg'', Buffer_from_binary body)))"

record GroupEncryption =
  ciphertext :: bytes
  senderKeyDistributionMessage :: bytes

definition encryptGroupMessage ::
  "'s modules \<Rightarrow> 's SignalAuthState \<Rightarrow> string \<Rightarrow> string \<Rightarrow> bytes \<Rightarrow> ('s, GroupEncryption) io" where
  "encryptGroupMessage imp auth grp meId data =
     io_bind (io_of (jidToSignalSenderKeyName grp meId)) (\<lambda>senderName.
     io_bind (keys_get (keys auth) SenderKey [senderName]) (\<lambda>res.
     io_bind (if \<not> (case res senderName of Some senderKey \<Rightarrow> truthy senderKey | None \<Rightarrow> False)
              then storeSenderKey (signalStorage auth) senderName (SenderKeyRecord_new imp)
              else io_return ()) (\<lambda>_.
     io_bind (GroupSessionBuilder_create imp (signalStorage auth) senderName) (\<lambda>skdm.
     io_bind (GroupCipher_encrypt imp (signalStorage auth) senderName data) (\<lambda>ct.
       io_return \<lparr>ciphertext = ct,
                  senderKeyDistributionMessage =
                    SenderKeyDistributionMessage_serialize imp skdm\<rparr>)))))"

definition injectE2ESession ::
  "'s modules \<Rightarrow> 's SignalAuthState \<Rightarrow> string \<Rightarrow> js_value \<Rightarrow> ('s, unit) io" where
  "injectE2ESession imp auth jid session =
     io_bind (io_of (jidToSignalProtocolAddress jid)) (\<lambda>addr.
       initOutgoing imp (signalStorage auth) addr session)"

text \<open>The method \<open>jidToSignalProtocolAddress\<close> of the repository object.\<close>

definition repository_jidToSignalProtocolAddress :: "'s modules \<Rightarrow> string \<Rightarrow> js_error + string" where
  "repository_jidToSignalProtocolAddress imp jid =
     (case jidToSignalProtocolAddress jid of
        Inl e \<Rightarrow> Inl e
      | Inr addr \<Rightarrow> Inr (ProtocolAddress_toString imp addr))"

section \<open>An in-memory key store and stand-in ciphers\<close>

text \<open>
  One implementation of the store interface, to run the repository on: tables per kind, a
  switch that makes every call reject, and a log of the \<open>get\<close> calls received.
\<close>

record world =
  tables :: "kind \<Rightarrow> string \<rightharpoonup> js_value"
  broken :: bool
  calls :: "(kind \<times> string list) list"

definition apply_entries ::
  "(string \<times> js_value option) list \<Rightarrow> (string \<rightharpoonup> js_value) \<Rightarrow> (string \<rightharpoonup> js_value)" where
  "apply_entries es t = foldl (\<lambda>t (i, v). t(i := v)) t es"

definition apply_patch ::
  "SignalDataSet \<Rightarrow> (kind \<Rightarrow> string \<rightharpoonup> js_value) \<Rightarrow> (kind \<Rightarrow> string \<rightharpoonup> js_value)" where
  "apply_patch p T = foldl (\<lambda>T (k, es). T(k := apply_entries es (T k))) T p"

definition memKeys :: "world SignalKeyStore" where
  "memKeys =
     \<lparr>keys_get = (\<lambda>k ids w.
        (if broken w then Inl (External ''store unavailable'')
         else Inr (\<lambda>i. if i \<in> set ids then tables w k i else None),
         w\<lparr>calls := calls w @ [(k, ids)]\<rparr>)),
      keys_set = (\<lambda>p w.
        if broken w then (Inl (External ''store unavailable''), w)
        else (Inr (), w\<lparr>tables := apply_patch p (tables w)\<rparr>))\<rparr>"

definition memAuth :: "world SignalAuthState" where
  "memAuth =
     \<lparr>creds =
        \<lparr>signedIdentityKey = \<lparr>publicKey = [1], privateKey = [2]\<rparr>,
         signedPreKey =
           \<lparr>keyPair = \<lparr>publicKey = [3], privateKey = [4]\<rparr>, signature = [5], keyId = 1,
            timestampS = None\<rparr>,
         registrationId = 1\<rparr>,
      keys = memKeys\<rparr>"

text \<open>
  Stand-ins for the ciphers. They use the storage as the libraries do, a session under
  the string form \<open>id.deviceId\<close> of the address and a sender key under the sender-key name,
  and do no cryptography: the plaintext is the ciphertext. Encrypting and decrypting a
  message need a session and reject without one, writing nothing; a pre-key message and
  an injected bundle set the session up.
\<close>

definition dotted :: "ProtocolAddress \<Rightarrow> string" where
  "dotted a = name a @ ''.'' @ nat_to_string (deviceId a)"

definition session_step :: "world SignalStorage \<Rightarrow> ProtocolAddress \<Rightarrow> bytes \<Rightarrow> (world, bytes) io" where
  "session_step st a d =
     io_bind (loadSession st (dotted a)) (\<lambda>r.
       case r of
         None \<Rightarrow> io_throw (External ''No sessions'')
       | Some _ \<Rightarrow> io_bind (storeSession st (dotted a) (JBin d)) (\<lambda>_. io_return d))"

definition session_setup :: "world SignalStorage \<Rightarrow> ProtocolAddress \<Rightarrow> js_value \<Rightarrow> (world, unit) io" where
  "session_setup st a record =
     io_bind (loadSession st (dotted a)) (\<lambda>_. storeSession st (dotted a) record)"

definition standin :: "world modules" where
  "standin =
     \<lparr>ProtocolAddress_toString = dotted,
      decryptPreKeyWhisperMessage = (\<lambda>st a d.
        io_bind (session_setup st a (JBin d)) (\<lambda>_. io_return d)),
      decryptWhisperMessage = session_step,
      SessionCipher_encrypt = (\<lambda>st a d.
        io_bind (session_step st a d) (\<lambda>_. io_return (1, ''body''))),
      initOutgoing = session_setup,
      GroupCipher_decrypt = (\<lambda>st n d.
        io_bind (loadSenderKey st n) (\<lambda>r.
          if r = None then io_throw (External ''no sender key'') else io_return d)),
      GroupCipher_encrypt = (\<lambda>st n d.
        io_bind (loadSenderKey st n) (\<lambda>r.
          if r = None then io_throw (External ''no sender key'') else io_return d)),
      GroupSessionBuilder_process = (\<lambda>st n d. storeSenderKey st n (JBin d)),
      GroupSessionBuilder_create = (\<lambda>st n.
        io_bind (loadSenderKey st n) (\<lambda>r.
          if r = None then io_throw (External ''no sender key'') else io_return [7])),
      SenderKeyDistributionMessage_new = (\<lambda>b. Inr b),
      SenderKeyDistributionMessage_serialize = (\<lambda>m. m),
      SenderKeyRecord_new = JBin []\<rparr>"

definition no_tables :: "kind \<Rightarrow> string \<rightharpoonup> js_value" where
  "no_tables = (\<lambda>k. Map.empty)"

definition world0 :: world where
  "world0 = \<lparr>tables = no_tables, broken = False, calls = []\<rparr>"

text \<open>One alternate id mapped to a canonical address.\<close>

definition world_mapped :: world where
  "world_mapped =
     \<lparr>tables = no_tables(LidMapping := [''123@lid'' \<mapsto> JStr ''5511@s.whatsapp.net'']),
      broken = False, calls = []\<rparr>"

text \<open>An alternate id mapped to another alternate id that is mapped in its turn.\<close>

definition world_chain :: world where
  "world_chain =
     \<lparr>tables = no_tables(LidMapping :=
        [''1@lid'' \<mapsto> JStr ''2@lid'', ''2@lid'' \<mapsto> JStr ''3@s.whatsapp.net'']),
      broken = False, calls = []\<rparr>"

text \<open>An alternate id mapped to an address of another server.\<close>

definition world_foreign :: world where
  "world_foreign =
     \<lparr>tables = no_tables(LidMapping := [''123@lid'' \<mapsto> JStr ''5511@c.us'']),
      broken = False, calls = []\<rparr>"

text \<open>
  The states after a session bundle was injected for the mapped alternate address, after
  a message was then encrypted for it, and after one was then decrypted from it.
\<close>

definition world_injected :: world where
  "world_injected = snd (injectE2ESession standin memAuth ''123@lid'' (JBin [9]) world_mapped)"

definition world_encrypted :: world where
  "world_encrypted = snd (encryptMessage standin memAuth ''123@lid'' [1] world_injected)"

definition world_decrypted :: world where
  "world_decrypted = snd (decryptMessage standin memAuth ''123@lid'' ''msg'' [2] world_encrypted)"

text \<open>The store that rejects every call.\<close>

definition world_broken :: world where
  "world_broken = world_mapped\<lparr>broken := True\<rparr>"

section \<open>The shape of an alternate-scheme address\<close>

text \<open>
  The device suffix of an address, as the specification reads it: nothing, or a colon
  followed by one decimal digit or more.
\<close>

definition is_device_suffix :: "string \<Rightarrow> bool" where
  "is_device_suffix dev =
     (case dev of [] \<Rightarrow> True | c # ds \<Rightarrow> c = CHR '':'' \<and> ds \<noteq> [] \<and> list_all is_digit ds)"

section \<open>Running the combinators\<close>

lemma io_return_apply: "io_return v s = (Inr v, s)"
  by (simp add: io_return_def)

lemma io_throw_apply: "io_throw e s = (Inl e, s)"
  by (simp add: io_throw_def)

lemma io_bind_apply:
  "io_bind m f s = (case m s of (Inl e, s') \<Rightarrow> (Inl e, s') | (Inr v, s') \<Rightarrow> f v s')"
  by (simp add: io_bind_def)

lemma io_catch_apply:
  "io_catch m h s = (case m s of (Inl e, s') \<Rightarrow> h e s' | (Inr v, s') \<Rightarrow> (Inr v, s'))"
  by (simp add: io_catch_def)

lemmas io_apply = io_return_apply io_throw_apply io_bind_apply io_catch_apply

section \<open>The normalizer\<close>

lemma normalize_cases:
  assumes "test_lid a"
  shows "normalizeLidToJid a ks s =
    (case keys_get ks LidMapping [lid_bare a] s of
       (Inl e, s') \<Rightarrow> (Inr a, s')
     | (Inr res, s') \<Rightarrow>
         (case res (lid_bare a) of
            Some (JStr mapped) \<Rightarrow>
              if mapped \<noteq> []
              then (Inr (replace_suffix_ci ''@s.whatsapp.net''
                           (lid_device a @ ''@s.whatsapp.net'') mapped), s')
              else (Inr a, s')
          | _ \<Rightarrow> (Inr a, s')))"
  using assms
  by (simp add: normalizeLidToJid_def Let_def io_apply
        split: prod.splits sum.splits option.splits js_value.splits)

text \<open>
  Claim C5. An address that does not end with the marker \<open>@lid\<close> (in any letter case, which
  is how the source tests for it) is returned as it is, and the state of the store is the
  one before the call, whatever the store does on \<open>get\<close> and \<open>set\<close>: the store was not
  consulted.
\<close>

theorem normalize_non_lid_unchanged:
  "\<not> test_lid a \<Longrightarrow> normalizeLidToJid a ks s = (Inr a, s)"
  by (simp add: normalizeLidToJid_def io_return_apply)

theorem normalize_non_lid_unchanged_witness:
  "\<not> test_lid ''5511:4@s.whatsapp.net'' \<and>
   fst (normalizeLidToJid ''5511:4@s.whatsapp.net'' memKeys world_mapped) = Inr ''5511:4@s.whatsapp.net'' \<and>
   calls (snd (normalizeLidToJid ''5511:4@s.whatsapp.net'' memKeys world_mapped)) = calls world_mapped"
proof -
  have h: "\<not> test_lid ''5511:4@s.whatsapp.net''"
    by code_simp
  show ?thesis
    using h by (simp add: normalize_non_lid_unchanged [OF h])
qed

text \<open>
  Claim C3. The normalizer always returns an address and never rejects; when the lookup of
  the bare identifier rejects, with whatever error, or returns a result without an entry
  for it, the address returned is the original one.
\<close>

theorem normalize_lookup_failure_swallowed:
  "(\<exists>r. fst (normalizeLidToJid a ks s) = Inr r) \<and>
   ((\<exists>e. fst (keys_get ks LidMapping [lid_bare a] s) = Inl e) \<or>
    (\<exists>res. fst (keys_get ks LidMapping [lid_bare a] s) = Inr res \<and> res (lid_bare a) = None)
    \<longrightarrow> fst (normalizeLidToJid a ks s) = Inr a)"
proof (cases "test_lid a")
  case False
  then show ?thesis
    by (simp add: normalizeLidToJid_def io_return_apply)
next
  case True
  show ?thesis
    by (auto simp: normalize_cases [OF True]
          split: prod.splits sum.splits option.splits js_value.splits)
qed

theorem normalize_lookup_failure_swallowed_witness:
  "fst (keys_get memKeys LidMapping [lid_bare ''123:4@lid''] world_broken)
     = Inl (External ''store unavailable'') \<and>
   fst (normalizeLidToJid ''123:4@lid'' memKeys world_broken) = Inr ''123:4@lid''"
proof -
  have h: "fst (keys_get memKeys LidMapping [lid_bare ''123:4@lid''] world_broken)
             = Inl (External ''store unavailable'')"
    by (simp add: memKeys_def world_broken_def)
  from normalize_lookup_failure_swallowed [of "''123:4@lid''" memKeys world_broken] h
  show ?thesis by blast
qed

section \<open>What the regular expressions accept\<close>

lemma lower_at: "lower c = CHR ''@'' \<Longrightarrow> c = CHR ''@''"
  by (simp add: lower_def split: if_splits)

lemma ends_ci_append: "map lower sfx = pat \<Longrightarrow> ends_ci pat (u @ sfx)"
  by (auto simp: ends_ci_def ci_eq_def)

lemma replace_suffix_ci_append:
  "map lower sfx = pat \<Longrightarrow> replace_suffix_ci pat repl (u @ sfx) = u @ repl"
  by (auto simp: replace_suffix_ci_def ends_ci_def ci_eq_def)

lemma marker_head:
  assumes "map lower sfx = ''@lid''"
  obtains t where "sfx = CHR ''@'' # t"
proof -
  from assms obtain c t where sfx: "sfx = c # t" and c: "lower c = CHR ''@''"
    by (cases sfx) auto
  from c have "c = CHR ''@''" by (rule lower_at)
  with sfx show thesis using that by simp
qed

lemma takeWhile_notsep_stop:
  "list_all notsep u \<Longrightarrow> \<not> notsep c \<Longrightarrow> takeWhile notsep (u @ c # t) = u"
  by (induction u) auto

lemma dropWhile_notsep_stop:
  "list_all notsep u \<Longrightarrow> \<not> notsep c \<Longrightarrow> dropWhile notsep (u @ c # t) = c # t"
  by (induction u) auto

lemma takeWhile_digit_stop:
  "list_all is_digit ds \<Longrightarrow> \<not> is_digit c \<Longrightarrow> takeWhile is_digit (ds @ c # t) = ds"
  by (induction ds) auto

lemma dropWhile_digit_stop:
  "list_all is_digit ds \<Longrightarrow> \<not> is_digit c \<Longrightarrow> dropWhile is_digit (ds @ c # t) = c # t"
  by (induction ds) auto

lemma match_lid_plain:
  assumes "u \<noteq> []" "list_all notsep u" "map lower sfx = ''@lid''"
  shows "match_lid (u @ sfx) = Some (u, None)"
proof -
  from assms(3) obtain t where sfx: "sfx = CHR ''@'' # t" by (rule marker_head)
  have "\<not> notsep (CHR ''@'')" by (simp add: notsep_def)
  then have "takeWhile notsep (u @ sfx) = u" "dropWhile notsep (u @ sfx) = sfx"
    unfolding sfx using assms(2) by (simp_all add: takeWhile_notsep_stop dropWhile_notsep_stop)
  then show ?thesis
    using assms(1,3) by (simp add: match_lid_def ci_eq_def)
qed

lemma match_lid_device:
  assumes "u \<noteq> []" "list_all notsep u" "ds \<noteq> []" "list_all is_digit ds"
    "map lower sfx = ''@lid''"
  shows "match_lid (u @ (CHR '':'' # ds) @ sfx) = Some (u, Some (CHR '':'' # ds))"
proof -
  from assms(5) obtain t where sfx: "sfx = CHR ''@'' # t" by (rule marker_head)
  have colon: "\<not> notsep (CHR '':'')" by (simp add: notsep_def)
  have at: "\<not> is_digit (CHR ''@'')" by (simp add: is_digit_def)
  have g1: "takeWhile notsep (u @ (CHR '':'' # ds) @ sfx) = u"
    and r: "dropWhile notsep (u @ (CHR '':'' # ds) @ sfx) = CHR '':'' # ds @ sfx"
    using assms(2) colon by (simp_all add: takeWhile_notsep_stop dropWhile_notsep_stop)
  have d: "takeWhile is_digit (ds @ sfx) = ds" and t: "dropWhile is_digit (ds @ sfx) = sfx"
    unfolding sfx using assms(4) at by (simp_all add: takeWhile_digit_stop dropWhile_digit_stop)
  have nomatch: "\<not> ci_eq (CHR '':'' # ds @ sfx) ''@lid''"
    by (simp add: ci_eq_def lower_def)
  show ?thesis
    unfolding match_lid_def g1 r
    using assms(1,3,5) nomatch by (simp add: d t ci_eq_def)
qed

lemma lid_shape:
  assumes "u \<noteq> []" "list_all notsep u" "is_device_suffix dev" "map lower sfx = ''@lid''"
  shows "test_lid (u @ dev @ sfx) \<and> lid_bare (u @ dev @ sfx) = u @ ''@lid'' \<and>
         lid_device (u @ dev @ sfx) = dev"
proof (cases dev)
  case Nil
  with assms show ?thesis
    using ends_ci_append [of sfx "''@lid''" u]
    by (simp add: test_lid_def lid_bare_def lid_device_def match_lid_plain)
next
  case (Cons c ds)
  with assms(3) have dev: "dev = CHR '':'' # ds" and ds: "ds \<noteq> []" "list_all is_digit ds"
    by (simp_all add: is_device_suffix_def)
  have "test_lid (u @ dev @ sfx)"
    using ends_ci_append [of sfx "''@lid''" "u @ dev"] assms(4) by (simp add: test_lid_def)
  moreover have "match_lid (u @ dev @ sfx) = Some (u, Some dev)"
    unfolding dev by (rule match_lid_device [OF assms(1,2) ds assms(4)])
  ultimately show ?thesis
    by (simp add: lid_bare_def lid_device_def)
qed

text \<open>
  Conversely, whatever \<open>match_lid\<close> accepts is a principal, an optional device suffix and
  the marker, with the groups it reports.
\<close>

lemma list_all_takeWhile: "list_all P (takeWhile P xs)"
  by (induction xs) auto

lemma match_lid_sound:
  assumes "match_lid s = Some (u, g)"
  shows "u \<noteq> [] \<and> list_all notsep u \<and>
    (\<exists>dev sfx. s = u @ dev @ sfx \<and> map lower sfx = ''@lid'' \<and> is_device_suffix dev \<and>
       (case g of None \<Rightarrow> dev = [] | Some d \<Rightarrow> dev = d \<and> d \<noteq> []))"
proof -
  let ?r = "dropWhile notsep s"
  from assms have u: "u = takeWhile notsep s" and ne: "u \<noteq> []"
    by (auto simp: match_lid_def Let_def split: if_splits list.splits)
  have s: "s = u @ ?r" unfolding u by simp
  have all: "list_all notsep u" unfolding u by (rule list_all_takeWhile)
  show ?thesis
  proof (cases "ci_eq ?r ''@lid''")
    case True
    with assms ne u have "g = None"
      by (simp add: match_lid_def Let_def)
    moreover from True have "map lower ?r = ''@lid''" by (simp add: ci_eq_def)
    ultimately show ?thesis
      using ne all s by (auto simp: is_device_suffix_def intro!: exI [of _ "[]"] exI [of _ ?r])
  next
    case False
    with assms ne u obtain r' where r: "?r = CHR '':'' # r'"
      and ds: "takeWhile is_digit r' \<noteq> []"
      and t: "ci_eq (dropWhile is_digit r') ''@lid''"
      and g: "g = Some (CHR '':'' # takeWhile is_digit r')"
      by (auto simp: match_lid_def Let_def split: if_splits list.splits)
    let ?dev = "CHR '':'' # takeWhile is_digit r'"
    have "s = u @ ?dev @ dropWhile is_digit r'"
      using s r by simp
    moreover have "is_device_suffix ?dev"
      using ds by (simp add: is_device_suffix_def list_all_takeWhile)
    moreover have "map lower (dropWhile is_digit r') = ''@lid''"
      using t by (simp add: ci_eq_def)
    ultimately show ?thesis
      using ne all g by (intro conjI exI [of _ ?dev] exI [of _ "dropWhile is_digit r'"]) simp_all
  qed
qed

text \<open>
  Claim C2, as stated: for every non-empty mapping entry \<open>c\<close> the normalizer returns \<open>c\<close>
  with the device suffix of the address re-attached. The suffix is inserted in front of a
  final \<open>@s.whatsapp.net\<close> only; an entry that ends otherwise is returned as it is, and the
  device suffix \<open>:4\<close> of \<open>123:4@lid\<close> is lost.
\<close>

theorem normalize_mapped_device_dropped_counterexample:
  "test_lid ''123:4@lid'' \<and> lid_bare ''123:4@lid'' = ''123@lid'' \<and>
   lid_device ''123:4@lid'' = '':4'' \<and>
   tables world_foreign LidMapping ''123@lid'' = Some (JStr ''5511@c.us'') \<and>
   fst (normalizeLidToJid ''123:4@lid'' memKeys world_foreign) = Inr ''5511@c.us''"
  by code_simp

text \<open>
  Claim C2, amended. Let \<open>a\<close> end with the marker and let the store return, under the bare
  identifier of \<open>a\<close>, an entry \<open>c\<close> that ends with \<open>@s.whatsapp.net\<close> (in any letter case),
  the form that can carry a device. Then the normalizer returns \<open>c\<close> with the device suffix
  of \<open>a\<close> put in front of \<open>@s.whatsapp.net\<close>. The bare identifier and the device suffix are
  those of the address: for \<open>a\<close> made of a principal without \<open>:\<close> and \<open>@\<close>, a device suffix
  and the marker, they are the principal followed by \<open>@lid\<close> and that device suffix.
\<close>

theorem normalize_mapped_reattaches_device:
  assumes "test_lid a"
    and "keys_get ks LidMapping [lid_bare a] s = (Inr res, s')"
    and "res (lid_bare a) = Some (JStr (cu @ csfx))"
    and "map lower csfx = ''@s.whatsapp.net''"
  shows "normalizeLidToJid a ks s = (Inr (cu @ lid_device a @ ''@s.whatsapp.net''), s') \<and>
    (\<forall>u dev sfx.
       a = u @ dev @ sfx \<and> u \<noteq> [] \<and> list_all notsep u \<and> is_device_suffix dev \<and>
       map lower sfx = ''@lid''
       \<longrightarrow> lid_bare a = u @ ''@lid'' \<and> lid_device a = dev)"
proof (intro conjI allI impI)
  from assms(4) have "csfx \<noteq> []" by auto
  then have ne: "cu @ csfx \<noteq> []" by simp
  have "normalizeLidToJid a ks s =
      (Inr (replace_suffix_ci ''@s.whatsapp.net'' (lid_device a @ ''@s.whatsapp.net'')
              (cu @ csfx)), s')"
    unfolding normalize_cases [OF assms(1)] assms(2) using ne by (simp add: assms(3))
  then show "normalizeLidToJid a ks s = (Inr (cu @ lid_device a @ ''@s.whatsapp.net''), s')"
    by (simp only: replace_suffix_ci_append [OF assms(4)])
next
  fix u dev sfx
  assume "a = u @ dev @ sfx \<and> u \<noteq> [] \<and> list_all notsep u \<and> is_device_suffix dev \<and>
       map lower sfx = ''@lid''"
  then show "lid_bare a = u @ ''@lid''" using lid_shape [of u dev sfx] by simp
next
  fix u dev sfx
  assume "a = u @ dev @ sfx \<and> u \<noteq> [] \<and> list_all notsep u \<and> is_device_suffix dev \<and>
       map lower sfx = ''@lid''"
  then show "lid_device a = dev" using lid_shape [of u dev sfx] by simp
qed

theorem normalize_mapped_reattaches_device_witness:
  "fst (normalizeLidToJid ''123:4@LID'' memKeys world_mapped) = Inr ''5511:4@s.whatsapp.net'' \<and>
   lid_bare ''123:4@LID'' = ''123@lid'' \<and> lid_device ''123:4@LID'' = '':4''"
proof -
  let ?a = "''123:4@LID''"
  let ?res = "fst (keys_get memKeys LidMapping [lid_bare ?a] world_mapped)"
  let ?s' = "snd (keys_get memKeys LidMapping [lid_bare ?a] world_mapped)"
  have h1: "test_lid ?a" by code_simp
  have b: "lid_bare ?a = ''123@lid''" by code_simp
  have d: "lid_device ?a = '':4''" by code_simp
  obtain res where res: "?res = Inr res"
    and h3: "res (lid_bare ?a) = Some (JStr (''5511'' @ ''@s.whatsapp.net''))"
    unfolding b by (simp add: memKeys_def world_mapped_def no_tables_def)
  have h2: "keys_get memKeys LidMapping [lid_bare ?a] world_mapped = (Inr res, ?s')"
    using res by (simp add: prod_eq_iff)
  have h4: "map lower ''@s.whatsapp.net'' = ''@s.whatsapp.net''" by code_simp
  from normalize_mapped_reattaches_device [OF h1 h2 h3 h4]
  show ?thesis by (simp add: b d)
qed

section \<open>Normalizing twice\<close>

lemma not_lid_canonical: "\<not> test_lid (x @ ''@s.whatsapp.net'')"
  by (simp add: test_lid_def ends_ci_def ci_eq_def lower_def)

lemma replace_suffix_not_lid:
  assumes "\<not> test_lid c"
  shows "\<not> test_lid (replace_suffix_ci ''@s.whatsapp.net'' (d @ ''@s.whatsapp.net'') c)"
proof (cases "ends_ci ''@s.whatsapp.net'' c")
  case True
  then have "replace_suffix_ci ''@s.whatsapp.net'' (d @ ''@s.whatsapp.net'') c
      = (take (length c - length ''@s.whatsapp.net'') c @ d) @ ''@s.whatsapp.net''"
    by (simp add: replace_suffix_ci_def)
  then show ?thesis
    by (simp only: not_lid_canonical not_False_eq_True)
next
  case False
  with assms show ?thesis by (simp add: replace_suffix_ci_def)
qed

lemma normalize_result:
  "fst (normalizeLidToJid a ks s) = Inr a \<or>
   (\<exists>res v. fst (keys_get ks LidMapping [lid_bare a] s) = Inr res \<and>
      res (lid_bare a) = Some (JStr v) \<and>
      fst (normalizeLidToJid a ks s) =
        Inr (replace_suffix_ci ''@s.whatsapp.net'' (lid_device a @ ''@s.whatsapp.net'') v))"
proof (cases "test_lid a")
  case False
  then show ?thesis
    by (simp add: normalizeLidToJid_def io_return_apply)
next
  case True
  show ?thesis
    by (auto simp: normalize_cases [OF True]
          split: prod.splits sum.splits option.splits js_value.splits)
qed

text \<open>
  Claim C4, as stated: normalizing twice gives what normalizing once gives, for every
  address and every store. It fails on a table that maps an alternate id to another
  alternate id which is mapped in its turn: the normalizer follows one entry per call.
\<close>

theorem normalize_idempotent_counterexample:
  "fst (normalizeLidToJid ''1@lid'' memKeys world_chain) = Inr ''2@lid'' \<and>
   fst (normalizeLidToJid ''2@lid'' memKeys world_chain) = Inr ''3@s.whatsapp.net''"
  by code_simp

text \<open>
  Claim C4, amended. When no string value that the store returns from the mapping table is
  itself an alternate-scheme address (the table maps alternate ids to canonical addresses
  only), normalizing the result of the normalizer in the same store state returns it
  unchanged.
\<close>

theorem normalize_idempotent_on_canonical_values:
  assumes "\<forall>k res v. fst (keys_get ks LidMapping [k] s) = Inr res \<and> res k = Some (JStr v)
             \<longrightarrow> \<not> test_lid v"
  shows "\<exists>r. fst (normalizeLidToJid a ks s) = Inr r \<and> fst (normalizeLidToJid r ks s) = Inr r"
proof -
  from normalize_result [of a ks s] show ?thesis
  proof (elim disjE exE conjE)
    assume "fst (normalizeLidToJid a ks s) = Inr a"
    then show ?thesis by simp
  next
    fix res v
    let ?r = "replace_suffix_ci ''@s.whatsapp.net'' (lid_device a @ ''@s.whatsapp.net'') v"
    assume get: "fst (keys_get ks LidMapping [lid_bare a] s) = Inr res"
      and entry: "res (lid_bare a) = Some (JStr v)"
      and first: "fst (normalizeLidToJid a ks s) = Inr ?r"
    from assms get entry have "\<not> test_lid v" by blast
    then have "\<not> test_lid ?r" by (rule replace_suffix_not_lid)
    then have "fst (normalizeLidToJid ?r ks s) = Inr ?r"
      by (simp add: normalizeLidToJid_def io_return_apply)
    with first show ?thesis by simp
  qed
qed

theorem normalize_idempotent_on_canonical_values_witness:
  "fst (normalizeLidToJid ''123:4@lid'' memKeys world_mapped) = Inr ''5511:4@s.whatsapp.net'' \<and>
   fst (normalizeLidToJid ''5511:4@s.whatsapp.net'' memKeys world_mapped)
     = Inr ''5511:4@s.whatsapp.net''"
proof -
  have inv: "\<forall>k res v. fst (keys_get memKeys LidMapping [k] world_mapped) = Inr res \<and>
      res k = Some (JStr v) \<longrightarrow> \<not> test_lid v"
  proof (intro allI impI, elim conjE)
    fix k res v
    assume "fst (keys_get memKeys LidMapping [k] world_mapped) = Inr res" "res k = Some (JStr v)"
    then have "v = ''5511'' @ ''@s.whatsapp.net''"
      by (auto simp: memKeys_def world_mapped_def no_tables_def split: if_splits)
    then show "\<not> test_lid v"
      by (simp only: not_lid_canonical not_False_eq_True)
  qed
  have first: "fst (normalizeLidToJid ''123:4@lid'' memKeys world_mapped)
      = Inr ''5511:4@s.whatsapp.net''"
    by code_simp
  from normalize_idempotent_on_canonical_values [OF inv, of "''123:4@lid''"] first
  show ?thesis by auto
qed

section \<open>The storage\<close>

text \<open>
  Claim C9. The trust check of the storage accepts every identifier and every identity
  key, whatever the authentication state.
\<close>

theorem isTrustedIdentity_accepts:
  "isTrustedIdentity (signalStorage auth) identifier identityKey"
  by (simp add: signalStorage_def)

theorem isTrustedIdentity_accepts_witness:
  "isTrustedIdentity (signalStorage memAuth) ''5511.0'' [5, 1, 2]"
  by (rule isTrustedIdentity_accepts)

section \<open>The address resolver\<close>

lemma principal_takeWhile:
  "takeWhile (\<lambda>c. c \<noteq> CHR '':'') (takeWhile (\<lambda>c. c \<noteq> CHR ''@'') jid) = takeWhile notsep jid"
  by (induction jid) (auto simp: notsep_def)

text \<open>
  Claim C6. An address without \<open>@\<close> cannot be decoded, and the principal segment of an
  address is what precedes its first \<open>:\<close> or \<open>@\<close>. For an address that cannot be decoded
  or whose principal segment is empty the resolver fails with \<open>MalformedAddress\<close>. It is
  a function of the address alone: it reads no store and repeats nothing.
\<close>

theorem resolve_malformed_fails:
  assumes "CHR ''@'' \<notin> set jid \<or> takeWhile notsep jid = []"
  shows "jidToSignalProtocolAddress jid = Inl MalformedAddress"
  using assms
  by (auto simp: jidToSignalProtocolAddress_def jidDecode_def Let_def principal_takeWhile)

theorem resolve_malformed_fails_witness:
  "takeWhile notsep '':3@s.whatsapp.net'' = [] \<and>
   jidToSignalProtocolAddress '':3@s.whatsapp.net'' = Inl MalformedAddress \<and>
   CHR ''@'' \<notin> set ''5511'' \<and>
   jidToSignalProtocolAddress ''5511'' = Inl MalformedAddress"
proof -
  have h1: "takeWhile notsep '':3@s.whatsapp.net'' = []"
    by code_simp
  have h2: "CHR ''@'' \<notin> set ''5511''"
    by simp
  from h1 have "jidToSignalProtocolAddress '':3@s.whatsapp.net'' = Inl MalformedAddress"
    by (intro resolve_malformed_fails disjI2)
  moreover from h2 have "jidToSignalProtocolAddress ''5511'' = Inl MalformedAddress"
    by (intro resolve_malformed_fails disjI1)
  ultimately show ?thesis
    using h1 h2 by simp
qed

section \<open>The repository\<close>

lemma io_of_apply: "io_of r s = (case r of Inl e \<Rightarrow> (Inl e, s) | Inr v \<Rightarrow> (Inr v, s))"
  by (simp add: io_of_def io_apply split: sum.splits)

text \<open>
  Claim C10, as stated: a message whose type is neither \<open>pkmsg\<close> nor \<open>msg\<close> makes
  \<open>decryptMessage\<close> return no plaintext and no error. The address is resolved before the
  dispatch on the type, so with an address that does not decode the call rejects.
\<close>

theorem decrypt_unknown_type_counterexample:
  "''receipt'' \<noteq> ''pkmsg'' \<and> ''receipt'' \<noteq> ''msg'' \<and>
   fst (decryptMessage standin memAuth ''5511'' ''receipt'' [1, 2] world0) = Inl MalformedAddress"
  by code_simp

text \<open>
  Claim C10, amended. For a type that is neither \<open>pkmsg\<close> nor \<open>msg\<close>, \<open>decryptMessage\<close>
  calls neither decoder and leaves the state as it was, whatever the decoders and the
  store are; it returns no plaintext and no error when the address resolves, and the
  error of the resolver when it does not.
\<close>

theorem decrypt_unknown_type_no_decoder:
  assumes "type \<noteq> ''pkmsg''" and "type \<noteq> ''msg''"
  shows "decryptMessage imp auth jid type ct s =
    (case jidToSignalProtocolAddress jid of
       Inl e \<Rightarrow> (Inl e, s)
     | Inr addr \<Rightarrow> (Inr None, s))"
  using assms
  by (simp add: decryptMessage_def io_of_apply io_apply split: sum.splits)

theorem decrypt_unknown_type_no_decoder_witness:
  "decryptMessage standin memAuth ''5511:2@s.whatsapp.net'' ''receipt'' [1, 2] world0
     = (Inr None, world0)"
proof -
  have h1: "''receipt'' \<noteq> ''pkmsg''" and h2: "''receipt'' \<noteq> ''msg''"
    by simp_all
  have a: "jidToSignalProtocolAddress ''5511:2@s.whatsapp.net''
      = Inr \<lparr>name = ''5511'', deviceId = 2\<rparr>"
    by code_simp
  show ?thesis
    by (simp add: decrypt_unknown_type_no_decoder [OF h1 h2] a)
qed

section \<open>The session of an alternate address\<close>

text \<open>
  The string form of an address ends with the digits of the device index, so it never
  ends with the marker: on the identifiers that a cipher keyed by that string form hands
  to the storage, the normalizer of \<open>loadSession\<close> and \<open>storeSession\<close> returns its
  argument and the store is read and written under the identifier as given.
\<close>

lemma nat_to_string_last:
  "nat_to_string n \<noteq> [] \<and> last (nat_to_string n) \<in> set ''0123456789''"
proof -
  have digit: "''0123456789'' ! k \<in> set ''0123456789''" if "k < 10" for k
    using that by (intro nth_mem) simp
  show ?thesis
  proof (cases "n < 10")
    case True
    with digit [of n] show ?thesis
      by (subst (1 2) nat_to_string.simps) simp
  next
    case False
    have "n mod 10 < 10" by simp
    with False digit [of "n mod 10"] show ?thesis
      by (subst (1 2) nat_to_string.simps) simp
  qed
qed

lemma lower_digit: "c \<in> set ''0123456789'' \<Longrightarrow> lower c \<noteq> CHR ''d''"
  by (auto simp: lower_def)

lemma test_lid_last:
  assumes "test_lid s"
  shows "s \<noteq> [] \<and> lower (last s) = CHR ''d''"
proof -
  let ?k = "length s - length ''@lid''"
  from assms have len: "length ''@lid'' \<le> length s" and t: "map lower (drop ?k s) = ''@lid''"
    by (simp_all add: test_lid_def ends_ci_def ci_eq_def)
  from len have ne: "s \<noteq> []" by auto
  from len have k: "?k < length s" by simp
  then have "drop ?k s \<noteq> []" by simp
  then have "last (map lower (drop ?k s)) = lower (last (drop ?k s))" by (rule last_map)
  moreover from k have "last (drop ?k s) = last s" by (rule last_drop)
  ultimately have "lower (last s) = last ''@lid''" using t by simp
  with ne show ?thesis by simp
qed

lemma dotted_never_lid: "\<not> test_lid (dotted a)"
proof
  assume "test_lid (dotted a)"
  then have "lower (last (dotted a)) = CHR ''d''" by (simp add: test_lid_last)
  moreover have "last (dotted a) = last (nat_to_string (deviceId a))"
    using nat_to_string_last [of "deviceId a"] by (simp add: dotted_def)
  ultimately show False
    using nat_to_string_last [of "deviceId a"] lower_digit by metis
qed

lemma storeSession_on_address_id:
  "storeSession (signalStorage auth) (dotted a) record s =
     keys_set (keys auth) [(Session, [(dotted a, Some record)])] s"
  by (simp add: signalStorage_def normalizeLidToJid_def dotted_never_lid io_apply)

lemma loadSession_on_address_id:
  "loadSession (signalStorage auth) (dotted a) s =
     io_bind (keys_get (keys auth) Session [dotted a]) (\<lambda>res.
       case res (dotted a) of
         Some sess \<Rightarrow> if truthy sess then io_return (Some sess) else io_return None
       | None \<Rightarrow> io_return None) s"
  by (simp add: signalStorage_def normalizeLidToJid_def dotted_never_lid io_apply)

text \<open>
  Claim C1. The operations on a session are to normalize the address and resolve the
  normalized address, so that the session record lives under the canonical key also for
  an alternate address. They resolve the address as given. With \<open>123@lid\<close> mapped to
  \<open>5511@s.whatsapp.net\<close>, whose address has the string form \<open>5511.0\<close>, injecting a session
  for \<open>123@lid\<close>, encrypting for it and decrypting from it keep the record under \<open>123.0\<close>
  and leave nothing under \<open>5511.0\<close>; encrypting for \<open>5511@s.whatsapp.net\<close> then finds no
  session.
\<close>

theorem lid_session_under_alternate_key:
  "fst (normalizeLidToJid ''123@lid'' memKeys world_mapped) = Inr ''5511@s.whatsapp.net'' \<and>
   repository_jidToSignalProtocolAddress standin ''5511@s.whatsapp.net'' = Inr ''5511.0'' \<and>
   repository_jidToSignalProtocolAddress standin ''123@lid'' = Inr ''123.0'' \<and>
   fst (injectE2ESession standin memAuth ''123@lid'' (JBin [9]) world_mapped) = Inr () \<and>
   tables world_injected Session ''5511.0'' = None \<and>
   tables world_injected Session ''123.0'' = Some (JBin [9]) \<and>
   fst (encryptMessage standin memAuth ''123@lid'' [1] world_injected)
     = Inr (''msg'', [98, 111, 100, 121]) \<and>
   tables world_encrypted Session ''5511.0'' = None \<and>
   tables world_encrypted Session ''123.0'' = Some (JBin [1]) \<and>
   fst (decryptMessage standin memAuth ''123@lid'' ''msg'' [2] world_encrypted) = Inr (Some [2]) \<and>
   tables world_decrypted Session ''5511.0'' = None \<and>
   tables world_decrypted Session ''123.0'' = Some (JBin [2]) \<and>
   fst (encryptMessage standin memAuth ''5511@s.whatsapp.net'' [3] world_decrypted)
     = Inl (External ''No sessions'')"
  by code_simp

text \<open>
  Claim C8. With the sender-key name of the group and the own address, \<open>encryptGroupMessage\<close>
  first asks the store for the sender key under that name; it stores a new, empty record
  through the storage exactly when the result holds none (no entry, or a falsy one: a byte
  array never is); in the state that follows it has the builder create the distribution
  message, and in the state after that it encrypts; it returns the ciphertext together
  with the serialized distribution message.
\<close>

theorem encryptGroupMessage_flow:
  assumes "jidToSignalSenderKeyName grp meId = Inr senderName"
    and "keys_get (keys auth) SenderKey [senderName] s = (Inr res, s1)"
    and "if (case res senderName of Some senderKey \<Rightarrow> truthy senderKey | None \<Rightarrow> False)
         then s2 = s1
         else storeSenderKey (signalStorage auth) senderName (SenderKeyRecord_new imp) s1
                = (Inr (), s2)"
    and "GroupSessionBuilder_create imp (signalStorage auth) senderName s2 = (Inr skdm, s3)"
    and "GroupCipher_encrypt imp (signalStorage auth) senderName data s3 = (Inr ct, s4)"
  shows "encryptGroupMessage imp auth grp meId data s =
    (Inr \<lparr>ciphertext = ct,
          senderKeyDistributionMessage = SenderKeyDistributionMessage_serialize imp skdm\<rparr>, s4)"
proof (cases "case res senderName of Some senderKey \<Rightarrow> truthy senderKey | None \<Rightarrow> False")
  case True
  with assms(3) have "s2 = s1" by simp
  with True assms(1,2,4,5) show ?thesis
    by (simp add: encryptGroupMessage_def io_of_apply io_apply)
next
  case False
  with assms(3) have "storeSenderKey (signalStorage auth) senderName (SenderKeyRecord_new imp) s1
      = (Inr (), s2)" by simp
  with False assms(1,2,4,5) show ?thesis
    by (simp add: encryptGroupMessage_def io_of_apply io_apply)
qed

theorem encryptGroupMessage_flow_witness:
  "fst (encryptGroupMessage standin memAuth ''120363@g.us'' ''5511@s.whatsapp.net'' [1, 2] world0)
     = Inr \<lparr>ciphertext = [1, 2], senderKeyDistributionMessage = [7]\<rparr> \<and>
   tables (snd (encryptGroupMessage standin memAuth ''120363@g.us'' ''5511@s.whatsapp.net'' [1, 2]
     world0)) SenderKey ''120363@g.us::5511::0'' = Some (JBin [])"
proof -
  let ?n = "''120363@g.us::5511::0''"
  let ?st = "signalStorage memAuth"
  let ?g = "keys_get (keys memAuth) SenderKey [?n] world0"
  let ?s1 = "snd ?g"
  let ?s2 = "snd (storeSenderKey ?st ?n (SenderKeyRecord_new standin) ?s1)"
  let ?s3 = "snd (GroupSessionBuilder_create standin ?st ?n ?s2)"
  let ?s4 = "snd (GroupCipher_encrypt standin ?st ?n [1, 2] ?s3)"
  have h1: "jidToSignalSenderKeyName ''120363@g.us'' ''5511@s.whatsapp.net'' = Inr ?n"
    by code_simp
  obtain res where res: "fst ?g = Inr res" and absent: "res ?n = None"
    by (simp add: memAuth_def memKeys_def world0_def no_tables_def)
  have h2: "?g = (Inr res, ?s1)"
    using res by (simp add: prod_eq_iff)
  have "fst (storeSenderKey ?st ?n (SenderKeyRecord_new standin) ?s1) = Inr ()"
    by code_simp
  then have h3: "if (case res ?n of Some senderKey \<Rightarrow> truthy senderKey | None \<Rightarrow> False)
      then ?s2 = ?s1
      else storeSenderKey ?st ?n (SenderKeyRecord_new standin) ?s1 = (Inr (), ?s2)"
    by (simp add: absent prod_eq_iff)
  have "fst (GroupSessionBuilder_create standin ?st ?n ?s2) = Inr [7]"
    by code_simp
  then have h4: "GroupSessionBuilder_create standin ?st ?n ?s2 = (Inr [7], ?s3)"
    by (simp add: prod_eq_iff)
  have "fst (GroupCipher_encrypt standin ?st ?n [1, 2] ?s3) = Inr [1, 2]"
    by code_simp
  then have h5: "GroupCipher_encrypt standin ?st ?n [1, 2] ?s3 = (Inr [1, 2], ?s4)"
    by (simp add: prod_eq_iff)
  have stored: "tables (snd (encryptGroupMessage standin memAuth ''120363@g.us''
      ''5511@s.whatsapp.net'' [1, 2] world0)) SenderKey ?n = Some (JBin [])"
    by code_simp
  have "SenderKeyDistributionMessage_serialize standin [7] = [7]"
    by (simp add: standin_def)
  with encryptGroupMessage_flow [OF h1 h2 h3 h4 h5] stored
  show ?thesis by simp
qed

end
